theory Spec2Isabelle
  imports Complex_Main
begin

section \<open>Python values shared by the data collector\<close>

text \<open>
  Python floats are modelled as the reals (rounding, infinities and NaN are outside the
  model); Python ints as \<open>int\<close>. Every exception the modelled code can raise is a value
  of \<open>py_error\<close>, and a fallible computation returns \<open>py_error + 'a\<close>.
\<close>

datatype py_error =
    ValueError
  | ZeroDivisionError
  | TypeError
  | NetworkError
  | AuthenticationError
  | PortfolioError

text \<open>A naive \<open>datetime.datetime\<close>: its seven fields.\<close>

record datetime =
  year :: int
  month :: int
  day :: int
  hour :: int
  minute :: int
  second :: int
  microsecond :: int

subsection \<open>base\_exchange.py: the data classes\<close>

text \<open>
  \<open>@dataclass class Balance\<close>: five plain fields and no \<open>__post_init__\<close>; the generated
  constructor stores its arguments as they are.
\<close>

record Balance =
  b_asset :: string
  b_free :: real
  b_locked :: real
  b_total :: real
  b_timestamp :: datetime

record Trade =
  t_symbol :: string
  t_side :: string
  t_amount :: real
  t_price :: real
  t_fee :: real
  t_fee_asset :: string
  t_timestamp :: datetime
  t_trade_id :: string

record MarketData =
  md_symbol :: string
  md_price :: real
  md_volume_24h :: real
  md_change_24h :: real
  md_change_24h_percent :: real
  md_high_24h :: real
  md_low_24h :: real
  md_timestamp :: datetime

section \<open>base\_exchange.py: the shared portfolio valuation\<close>

text \<open>
  \<open>str.upper()\<close> on the ASCII letters; asset and market symbols are ASCII, every other
  character is left as it is.
\<close>

definition upper_char :: "char \<Rightarrow> char" where
  "upper_char c =
     (let n = (of_char c :: nat)
      in if 97 \<le> n \<and> n \<le> 122 then char_of (n - 32) else c)"

definition upper :: "string \<Rightarrow> string" where
  "upper s = map upper_char s"

text \<open>\<open>s.endswith(suffix)\<close>.\<close>

definition endswith :: "string \<Rightarrow> string \<Rightarrow> bool" where
  "endswith s suffix =
     (length suffix \<le> length s \<and> drop (length s - length suffix) s = suffix)"

text \<open>
  \<open>s.replace(pat, '')\<close>: every non-overlapping occurrence of \<open>pat\<close>, scanning from the
  left, is removed (an empty pattern changes nothing when the replacement is empty).
\<close>

function replace_with_empty :: "string \<Rightarrow> string \<Rightarrow> string" where
  "replace_with_empty pat s =
     (if s = [] then []
      else if pat \<noteq> [] \<and> take (length pat) s = pat
           then replace_with_empty pat (drop (length pat) s)
           else hd s # replace_with_empty pat (tl s))"
  by pat_completeness auto
termination
  by (relation "measure (\<lambda>(pat, s). length s)") auto

declare replace_with_empty.simps [simp del]

text \<open>
  The price dictionary of \<open>get_portfolio_value\<close>: for each ticker, in order, the upper-cased
  symbol is tested for the suffix \<open>USDT\<close>, the asset is the symbol with every \<open>USDT\<close>
  removed, and a later ticker overwrites an earlier one for the same asset.
\<close>

fun build_prices :: "(string \<rightharpoonup> real) \<Rightarrow> MarketData list \<Rightarrow> (string \<rightharpoonup> real)" where
  "build_prices prices [] = prices"
| "build_prices prices (d # ds) =
     (let symbol = upper (md_symbol d) in
      if endswith symbol ''USDT''
      then build_prices (prices(replace_with_empty ''USDT'' symbol \<mapsto> md_price d)) ds
      else build_prices prices ds)"

text \<open>One entry of the \<open>assets\<close> breakdown.\<close>

record asset_value =
  av_amount :: real
  av_value_usdt :: real
  av_price :: real

text \<open>The dictionary \<open>get_portfolio_value\<close> returns (its \<open>timestamp\<close> string is left out).\<close>

record portfolio =
  pv_total_value_usdt :: real
  pv_assets :: "string \<rightharpoonup> asset_value"

text \<open>The valuation loop over the balances, threading \<open>total_value\<close> and \<open>asset_values\<close>.\<close>

fun value_balances ::
  "(string \<rightharpoonup> real) \<Rightarrow> real \<times> (string \<rightharpoonup> asset_value) \<Rightarrow> Balance list
     \<Rightarrow> real \<times> (string \<rightharpoonup> asset_value)" where
  "value_balances prices acc [] = acc"
| "value_balances prices (total_value, asset_values) (balance # rest) =
     (if b_total balance > 0
      then
        (let asset = upper (b_asset balance);
             v = (if asset = ''USDT'' then b_total balance
                  else (case prices asset of
                          Some p \<Rightarrow> b_total balance * p
                        | None \<Rightarrow> 0))
         in value_balances prices
              (total_value + v,
               asset_values(asset \<mapsto>
                 \<lparr>av_amount = b_total balance, av_value_usdt = v,
                  av_price = (case prices asset of Some p \<Rightarrow> p | None \<Rightarrow> 0)\<rparr>))
              rest)
      else value_balances prices (total_value, asset_values) rest)"

definition valuation :: "Balance list \<Rightarrow> MarketData list \<Rightarrow> portfolio" where
  "valuation balances market_data =
     (let prices = build_prices Map.empty market_data;
          (total_value, asset_values) = value_balances prices (0, Map.empty) balances
      in \<lparr>pv_total_value_usdt = total_value, pv_assets = asset_values\<rparr>)"

text \<open>
  \<open>BaseExchange.get_portfolio_value\<close>: the two adapter calls are abstract in the base class,
  so each is given by its outcome; any exception is re-raised as a plain \<open>Exception\<close>.
\<close>

definition get_portfolio_value ::
  "py_error + Balance list \<Rightarrow> py_error + MarketData list \<Rightarrow> py_error + portfolio" where
  "get_portfolio_value balance_call market_call =
     (case balance_call of
        Inl e \<Rightarrow> Inl PortfolioError
      | Inr balances \<Rightarrow>
          (case market_call of
             Inl e \<Rightarrow> Inl PortfolioError
           | Inr market_data \<Rightarrow> Inr (valuation balances market_data)))"

section \<open>data\_collector.py: one collection round\<close>

text \<open>
  An active exchange as one round sees it: the three fields \<open>is_enabled\<close> reads, and the
  outcome of every adapter call the round makes on it. \<open>get_portfolio_value\<close> calls
  \<open>get_account_balance\<close> and \<open>get_market_data\<close> again, so these two have outcomes of
  their own.
\<close>

record exchange =
  enabled :: bool
  api_key :: string
  api_secret :: string
  balance_call :: "py_error + Balance list"
  market_call :: "py_error + MarketData list"
  trade_call :: "py_error + Trade list"
  pv_balance_call :: "py_error + Balance list"
  pv_market_call :: "py_error + MarketData list"

definition is_enabled :: "exchange \<Rightarrow> bool" where
  "is_enabled ex = (enabled ex \<and> api_key ex \<noteq> [] \<and> api_secret ex \<noteq> [])"

text \<open>
  The four sub-collections. The sink's \<open>write_*\<close> methods catch every exception
  themselves, so the write never raises and the result is decided by the adapter call alone.
\<close>

definition collect_balance_data :: "exchange \<Rightarrow> bool" where
  "collect_balance_data ex =
     (case balance_call ex of
        Inl e \<Rightarrow> False
      | Inr balances \<Rightarrow> if balances \<noteq> [] then True else False)"

definition collect_market_data :: "exchange \<Rightarrow> bool" where
  "collect_market_data ex =
     (case market_call ex of
        Inl e \<Rightarrow> False
      | Inr market_data \<Rightarrow> if market_data \<noteq> [] then True else False)"

definition collect_trade_data :: "exchange \<Rightarrow> bool" where
  "collect_trade_data ex =
     (case trade_call ex of
        Inl e \<Rightarrow> False
      | Inr trades \<Rightarrow> if trades \<noteq> [] then True else False)"

definition collect_portfolio_data :: "exchange \<Rightarrow> bool" where
  "collect_portfolio_data ex =
     (case get_portfolio_value (pv_balance_call ex) (pv_market_call ex) of
        Inl e \<Rightarrow> False
      | Inr portfolio_value \<Rightarrow>
          if pv_total_value_usdt portfolio_value > 0 then True else False)"

text \<open>
  An entry of the list \<open>asyncio.gather(..., return_exceptions=True)\<close> returns: the
  task's return value, or the exception it raised.
\<close>

datatype task_result = Returned bool | Raised py_error

definition gather_sub_collections :: "exchange \<Rightarrow> task_result list" where
  "gather_sub_collections ex =
     [Returned (collect_balance_data ex),
      Returned (collect_market_data ex),
      Returned (collect_trade_data ex),
      Returned (collect_portfolio_data ex)]"

text \<open>\<open>sum(1 for result in results if result is True)\<close>.\<close>

definition count_true :: "task_result list \<Rightarrow> nat" where
  "count_true results = length (filter (\<lambda>result. result = Returned True) results)"

definition collect_exchange_data :: "exchange \<Rightarrow> bool" where
  "collect_exchange_data ex =
     (if \<not> is_enabled ex then False
      else
        (let results = gather_sub_collections ex;
             successful = count_true results;
             total = length results
         in if successful = total then True else successful > 0))"

record stats =
  collections_completed :: int
  collections_failed :: int

text \<open>
  \<open>_collect_data_round\<close>: one task per active exchange, gathered in order, then the
  two counters. The strategy pass that follows catches its own exceptions and does not
  touch the counters.
\<close>

definition collect_data_round :: "stats \<Rightarrow> exchange list \<Rightarrow> stats" where
  "collect_data_round st exchanges =
     (let results = map (\<lambda>ex. Returned (collect_exchange_data ex)) exchanges;
          successful = count_true results;
          failed = length results - successful
      in st\<lparr>collections_completed := collections_completed st + int successful,
            collections_failed := collections_failed st + int failed\<rparr>)"

section \<open>arbitrage\_calculator.py\<close>

text \<open>Float division: Python raises \<open>ZeroDivisionError\<close> on a zero divisor.\<close>

definition py_div :: "real \<Rightarrow> real \<Rightarrow> py_error + real" where
  "py_div a b = (if b = 0 then Inl ZeroDivisionError else Inr (a / b))"

record ArbitrageOpportunity =
  opp_timestamp :: datetime
  binance_price :: real
  htx_price :: real
  price_diff :: real
  price_diff_percent :: real
  suggested_action :: string
  potential_profit_percent :: real

record PnLData =
  pnl_timestamp :: datetime
  total_value_usdt :: real
  binance_balance_usdt :: real
  htx_balance_usdt :: real
  daily_pnl :: real
  daily_pnl_percent :: real
  cumulative_pnl :: real
  cumulative_pnl_percent :: real

record ArbitrageCalculator =
  initial_capital :: real
  transaction_fee :: real
  min_profit_threshold :: real
  price_history :: "ArbitrageOpportunity list"
  pnl_history :: "PnLData list"

text \<open>
  \<open>ArbitrageCalculator.__init__(self, initial_capital=10000.0)\<close>: the fee and the
  threshold are literals of the constructor body.
\<close>

definition ArbitrageCalculator_init :: "real \<Rightarrow> ArbitrageCalculator" where
  "ArbitrageCalculator_init capital =
     \<lparr>initial_capital = capital,
      transaction_fee = 1 / 1000,
      min_profit_threshold = 5 / 100,
      price_history = [],
      pnl_history = []\<rparr>"

definition default_initial_capital :: real where
  "default_initial_capital = 10000"


text \<open>
  \<open>_calculate_total_value_usdt\<close>: the loop over \<open>balance.items()\<close>, a dictionary
  given by its items in iteration order; \<open>prices.get(key, 1.0)\<close> defaults to 1.
\<close>

fun total_value_loop :: "(string \<rightharpoonup> real) \<Rightarrow> real \<Rightarrow> (string \<times> real) list \<Rightarrow> real" where
  "total_value_loop prices total_value [] = total_value"
| "total_value_loop prices total_value ((asset, amount) # rest) =
     (if amount \<le> 0 then total_value_loop prices total_value rest
      else if upper asset = ''USDT''
        then total_value_loop prices (total_value + amount) rest
      else if upper asset = ''FDUSD''
        then total_value_loop prices
               (total_value
                  + amount * (case prices ''fdusd_usdt'' of Some p \<Rightarrow> p | None \<Rightarrow> 1))
               rest
      else if upper asset = ''USDC''
        then total_value_loop prices
               (total_value
                  + amount * (case prices ''usdc_usdt'' of Some p \<Rightarrow> p | None \<Rightarrow> 1))
               rest
      else total_value_loop prices total_value rest)"

definition calculate_total_value_usdt ::
  "(string \<times> real) list \<Rightarrow> (string \<rightharpoonup> real) \<Rightarrow> real" where
  "calculate_total_value_usdt balance prices = total_value_loop prices 0 balance"




subsection \<open>The history queries\<close>

definition is_leap :: "int \<Rightarrow> bool" where
  "is_leap y = (y mod 4 = 0 \<and> (y mod 100 \<noteq> 0 \<or> y mod 400 = 0))"

definition days_in_month :: "int \<Rightarrow> int \<Rightarrow> int" where
  "days_in_month y m =
     (if m = 2 then (if is_leap y then 29 else 28)
      else if m = 4 \<or> m = 6 \<or> m = 9 \<or> m = 11 then 30
      else 31)"

text \<open>
  \<open>datetime.replace\<close> builds a new datetime and validates it: an hour outside 0..23 or
  a day outside 1..days-in-month raises \<open>ValueError\<close>.
\<close>

definition replace_hour :: "datetime \<Rightarrow> int \<Rightarrow> py_error + datetime" where
  "replace_hour t h =
     (if 0 \<le> h \<and> h \<le> 23 then Inr (t\<lparr>hour := h\<rparr>) else Inl ValueError)"

definition replace_day :: "datetime \<Rightarrow> int \<Rightarrow> py_error + datetime" where
  "replace_day t d =
     (if 1 \<le> d \<and> d \<le> days_in_month (year t) (month t)
      then Inr (t\<lparr>day := d\<rparr>) else Inl ValueError)"

text \<open>\<open>replace(hour=0, minute=0, second=0, microsecond=0)\<close>: always valid.\<close>

definition midnight :: "datetime \<Rightarrow> datetime" where
  "midnight t = t\<lparr>hour := 0, minute := 0, second := 0, microsecond := 0\<rparr>"

text \<open>Naive datetimes compare field by field, the year first.\<close>

fun lex_le :: "int list \<Rightarrow> int list \<Rightarrow> bool" where
  "lex_le [] ys = True"
| "lex_le (x # xs) [] = False"
| "lex_le (x # xs) (y # ys) = (x < y \<or> (x = y \<and> lex_le xs ys))"

definition datetime_fields :: "datetime \<Rightarrow> int list" where
  "datetime_fields t =
     [year t, month t, day t, hour t, minute t, second t, microsecond t]"

definition datetime_ge :: "datetime \<Rightarrow> datetime \<Rightarrow> bool" where
  "datetime_ge a b = lex_le (datetime_fields b) (datetime_fields a)"

definition get_recent_opportunities ::
  "datetime \<Rightarrow> ArbitrageCalculator \<Rightarrow> int \<Rightarrow> py_error + ArbitrageOpportunity list" where
  "get_recent_opportunities now self hours =
     (let cutoff_time = midnight now in
      case replace_hour cutoff_time (hour cutoff_time - hours) of
        Inl e \<Rightarrow> Inl e
      | Inr cutoff \<Rightarrow>
          Inr (filter (\<lambda>opp. datetime_ge (opp_timestamp opp) cutoff) (price_history self)))"

definition get_recent_pnl ::
  "datetime \<Rightarrow> ArbitrageCalculator \<Rightarrow> int \<Rightarrow> py_error + PnLData list" where
  "get_recent_pnl now self days =
     (let cutoff_time = midnight now in
      case replace_day cutoff_time (day cutoff_time - days) of
        Inl e \<Rightarrow> Inl e
      | Inr cutoff \<Rightarrow>
          Inr (filter (\<lambda>pnl. datetime_ge (pnl_timestamp pnl) cutoff) (pnl_history self)))"

subsection \<open>Performance statistics\<close>

text \<open>
  \<open>(a - b).days\<close> for naive datetimes: the difference in microseconds since the
  proleptic Gregorian origin, floored to whole days.
\<close>

definition days_before_year :: "int \<Rightarrow> int" where
  "days_before_year y =
     (let y1 = y - 1 in y1 * 365 + y1 div 4 - y1 div 100 + y1 div 400)"

definition days_before_month :: "int \<Rightarrow> int \<Rightarrow> int" where
  "days_before_month y m = sum_list (map (days_in_month y) [1..m - 1])"

definition toordinal :: "datetime \<Rightarrow> int" where
  "toordinal t = days_before_year (year t) + days_before_month (year t) (month t) + day t"

definition total_microseconds :: "datetime \<Rightarrow> int" where
  "total_microseconds t =
     (((toordinal t * 24 + hour t) * 60 + minute t) * 60 + second t) * 1000000
       + microsecond t"

definition timedelta_days :: "datetime \<Rightarrow> datetime \<Rightarrow> int" where
  "timedelta_days a b =
     (total_microseconds a - total_microseconds b) div (86400 * 1000000)"

text \<open>
  The drawdown loop, threading \<open>max_value\<close> and \<open>max_drawdown\<close>; the division raises
  when the running maximum is zero.
\<close>

fun drawdown_loop :: "real \<Rightarrow> real \<Rightarrow> PnLData list \<Rightarrow> py_error + real" where
  "drawdown_loop max_value max_drawdown [] = Inr max_drawdown"
| "drawdown_loop max_value max_drawdown (pnl # rest) =
     (let max_value' = max max_value (total_value_usdt pnl) in
      case py_div (max_value' - total_value_usdt pnl) max_value' of
        Inl e \<Rightarrow> Inl e
      | Inr q \<Rightarrow> drawdown_loop max_value' (max max_drawdown (q * 100)) rest)"

text \<open>The period-over-period returns, \<open>for i in range(1, len(self.pnl_history))\<close>.\<close>

fun daily_returns :: "PnLData list \<Rightarrow> py_error + real list" where
  "daily_returns (prev_pnl # curr_pnl # rest) =
     (case py_div (total_value_usdt curr_pnl - total_value_usdt prev_pnl)
             (total_value_usdt prev_pnl) of
        Inl e \<Rightarrow> Inl e
      | Inr r \<Rightarrow>
          (case daily_returns (curr_pnl # rest) of
             Inl e \<Rightarrow> Inl e
           | Inr rs \<Rightarrow> Inr (r # rs)))"
| "daily_returns [p] = Inr []"
| "daily_returns [] = Inr []"

text \<open>\<open>statistics.mean\<close> and \<open>statistics.stdev\<close> (the sample standard deviation).\<close>

definition mean :: "real list \<Rightarrow> real" where
  "mean xs = sum_list xs / real (length xs)"

definition stdev :: "real list \<Rightarrow> real" where
  "stdev xs =
     sqrt (sum_list (map (\<lambda>x. (x - mean xs)\<^sup>2) xs) / (real (length xs) - 1))"

definition sharpe_of :: "real list \<Rightarrow> real" where
  "sharpe_of returns =
     (if returns \<noteq> [] then
        (let avg_return = mean returns * 365;
             return_std = (if length returns > 1 then stdev returns * sqrt 365 else 0)
         in if return_std > 0 then avg_return / return_std else 0)
      else 0)"

record performance_stats =
  total_return_percent :: real
  annualized_return_percent :: real
  max_drawdown_percent :: real
  sharpe_ratio :: real
  days_running :: int
  current_value_usdt :: real

text \<open>
  \<open>get_performance_stats\<close>: \<open>None\<close> is the empty dictionary returned on an empty
  history.
\<close>

definition get_performance_stats ::
  "datetime \<Rightarrow> ArbitrageCalculator \<Rightarrow> py_error + performance_stats option" where
  "get_performance_stats now self =
     (if pnl_history self = [] then Inr None
      else
        (let latest_pnl = last (pnl_history self) in
         case drawdown_loop (initial_capital self) 0 (pnl_history self) of
           Inl e \<Rightarrow> Inl e
         | Inr max_drawdown \<Rightarrow>
             (let running =
                    max 1 (timedelta_days now (pnl_timestamp (hd (pnl_history self))));
                  annualized_return =
                    (cumulative_pnl_percent latest_pnl / real_of_int running) * 365
              in case daily_returns (pnl_history self) of
                   Inl e \<Rightarrow> Inl e
                 | Inr returns \<Rightarrow>
                     Inr (Some
                       \<lparr>total_return_percent = cumulative_pnl_percent latest_pnl,
                        annualized_return_percent = annualized_return,
                        max_drawdown_percent = max_drawdown,
                        sharpe_ratio = sharpe_of returns,
                        days_running = running,
                        current_value_usdt = total_value_usdt latest_pnl\<rparr>))))"

section \<open>binance\_exchange.py: the account balance\<close>

text \<open>An entry of the client's balance dictionaries: a number or \<open>None\<close>.\<close>

datatype py_value = Number real | PyNone

text \<open>\<open>float(x)\<close>: \<open>float(None)\<close> raises \<open>TypeError\<close>.\<close>

definition py_float :: "py_value \<Rightarrow> py_error + real" where
  "py_float v = (case v of Number x \<Rightarrow> Inr x | PyNone \<Rightarrow> Inl TypeError)"

text \<open>
  What \<open>fetch_balance()\<close> returns, as far as the adapter reads it: the items of
  \<open>balance_data.get('total', {})\<close> in iteration order, and the \<open>free\<close> and \<open>used\<close>
  dictionaries (a missing dictionary reads as the empty one).
\<close>

record balance_data =
  bal_total :: "(string \<times> py_value) list"
  bal_free :: "string \<rightharpoonup> py_value"
  bal_used :: "string \<rightharpoonup> py_value"

text \<open>\<open>d.get(asset, 0.0)\<close>.\<close>

definition get_or_zero :: "(string \<rightharpoonup> py_value) \<Rightarrow> string \<Rightarrow> py_value" where
  "get_or_zero d asset = (case d asset of Some v \<Rightarrow> v | None \<Rightarrow> Number 0)"

fun balances_loop ::
  "datetime \<Rightarrow> balance_data \<Rightarrow> Balance list \<Rightarrow> (string \<times> py_value) list
     \<Rightarrow> py_error + Balance list" where
  "balances_loop current_time bd balances [] = Inr balances"
| "balances_loop current_time bd balances ((asset, data) # rest) =
     (case data of
        PyNone \<Rightarrow> balances_loop current_time bd balances rest
      | Number x \<Rightarrow>
          if x > 0 then
            (case py_float (get_or_zero (bal_free bd) asset) of
               Inl e \<Rightarrow> Inl e
             | Inr free \<Rightarrow>
                 (case py_float (get_or_zero (bal_used bd) asset) of
                    Inl e \<Rightarrow> Inl e
                  | Inr used \<Rightarrow>
                      balances_loop current_time bd
                        (balances @
                           [\<lparr>b_asset = asset, b_free = free, b_locked = used,
                             b_total = x, b_timestamp = current_time\<rparr>])
                        rest))
          else balances_loop current_time bd balances rest)"

text \<open>
  \<open>rate_limit_check\<close>, as far as it can fail: \<open>60.0 / self.rate_limit\<close>. The sleep is
  left out.
\<close>

definition rate_limit_check :: "int \<Rightarrow> py_error + unit" where
  "rate_limit_check rate_limit =
     (if rate_limit = 0 then Inl ZeroDivisionError else Inr ())"

text \<open>
  \<open>BinanceExchange.get_account_balance\<close>: the whole body is inside
  \<open>try: ... except Exception: return []\<close>. The third argument is the outcome of the
  client's \<open>fetch_balance()\<close>, an exception on a transport or authentication failure.
\<close>

definition get_account_balance ::
  "int \<Rightarrow> datetime \<Rightarrow> py_error + balance_data \<Rightarrow> py_error + Balance list" where
  "get_account_balance rate_limit now fetch_balance =
     (case rate_limit_check rate_limit of
        Inl e \<Rightarrow> Inr []
      | Inr u \<Rightarrow>
          (case fetch_balance of
             Inl e \<Rightarrow> Inr []
           | Inr bd \<Rightarrow>
               (case balances_loop now bd [] (bal_total bd) of
                  Inl e \<Rightarrow> Inr []
                | Inr balances \<Rightarrow> Inr balances)))"

section \<open>data\_collector.py and config.py: construction\<close>

text \<open>
  \<open>Config.get(key_path, default)\<close> over the loaded file, here a map from dotted key
  paths to numbers.
\<close>

type_synonym Config = "string \<rightharpoonup> real"

definition config_get :: "Config \<Rightarrow> string \<Rightarrow> real \<Rightarrow> real" where
  "config_get cfg key_path dflt = (case cfg key_path of Some v \<Rightarrow> v | None \<Rightarrow> dflt)"

definition get_collection_interval :: "Config \<Rightarrow> real" where
  "get_collection_interval cfg = config_get cfg ''data_collection.interval_minutes'' 5"

definition get_concurrent_requests :: "Config \<Rightarrow> real" where
  "get_concurrent_requests cfg = config_get cfg ''data_collection.concurrent_requests'' 5"

record DataCollector =
  collection_interval :: real
  concurrent_requests :: real
  arbitrage_calculator :: ArbitrageCalculator
  collector_stats :: stats

text \<open>
  \<open>DataCollector.__init__\<close>: the calculator is built by \<open>ArbitrageCalculator()\<close>, with
  no argument.
\<close>

definition DataCollector_init :: "Config \<Rightarrow> DataCollector" where
  "DataCollector_init cfg =
     \<lparr>collection_interval = get_collection_interval cfg * 60,
      concurrent_requests = get_concurrent_requests cfg,
      arbitrage_calculator = ArbitrageCalculator_init default_initial_capital,
      collector_stats = \<lparr>collections_completed = 0, collections_failed = 0\<rparr>\<rparr>"

section \<open>Inputs and predicates of the properties\<close>

definition t0 :: datetime where
  "t0 = \<lparr>year = 2026, month = 11, day = 3, hour = 12, minute = 0, second = 0,
          microsecond = 0\<rparr>"

definition usdt_balance :: Balance where
  "usdt_balance =
     \<lparr>b_asset = ''USDT'', b_free = 40, b_locked = 10, b_total = 50, b_timestamp = t0\<rparr>"

definition exchange_all_failing :: exchange where
  "exchange_all_failing =
     \<lparr>enabled = True, api_key = ''key'', api_secret = ''secret'',
      balance_call = Inl NetworkError, market_call = Inl NetworkError,
      trade_call = Inl NetworkError, pv_balance_call = Inl NetworkError,
      pv_market_call = Inl NetworkError\<rparr>"

definition exchange_balances_only :: exchange where
  "exchange_balances_only = exchange_all_failing\<lparr>balance_call := Inr [usdt_balance]\<rparr>"

definition exchange_all_empty :: exchange where
  "exchange_all_empty =
     \<lparr>enabled = True, api_key = ''key'', api_secret = ''secret'',
      balance_call = Inr [], market_call = Inr [], trade_call = Inr [],
      pv_balance_call = Inr [], pv_market_call = Inr []\<rparr>"

definition stats0 :: stats where
  "stats0 = \<lparr>collections_completed = 0, collections_failed = 0\<rparr>"

definition orchestrator_calculator :: ArbitrageCalculator where
  "orchestrator_calculator = ArbitrageCalculator_init default_initial_capital"

definition pnl_entry :: "datetime \<Rightarrow> real \<Rightarrow> PnLData" where
  "pnl_entry t v =
     \<lparr>pnl_timestamp = t, total_value_usdt = v, binance_balance_usdt = v,
      htx_balance_usdt = 0, daily_pnl = 0, daily_pnl_percent = 0,
      cumulative_pnl = v - default_initial_capital,
      cumulative_pnl_percent = (v - default_initial_capital) / default_initial_capital * 100\<rparr>"

definition calculator_with_entry :: "real \<Rightarrow> ArbitrageCalculator" where
  "calculator_with_entry v = orchestrator_calculator\<lparr>pnl_history := [pnl_entry t0 v]\<rparr>"

text \<open>
  A balance list as the items of the dictionary asset \<open>\<mapsto>\<close> total that
  \<open>calculate_pnl\<close> takes, one item per balance.
\<close>

definition balance_items :: "Balance list \<Rightarrow> (string \<times> real) list" where
  "balance_items balances = map (\<lambda>b. (b_asset b, b_total b)) balances"

definition btc_balance :: Balance where
  "btc_balance =
     \<lparr>b_asset = ''BTC'', b_free = 1, b_locked = 0, b_total = 1, b_timestamp = t0\<rparr>"

definition btc_ticker :: MarketData where
  "btc_ticker =
     \<lparr>md_symbol = ''BTCUSDT'', md_price = 50000, md_volume_24h = 0, md_change_24h = 0,
      md_change_24h_percent = 0, md_high_24h = 0, md_low_24h = 0, md_timestamp = t0\<rparr>"

definition inconsistent_response :: balance_data where
  "inconsistent_response =
     \<lparr>bal_total = [(''BTC'', Number 1)],
      bal_free = [''BTC'' \<mapsto> Number (1 / 2)],
      bal_used = Map.empty\<rparr>"

definition consistent_response :: balance_data where
  "consistent_response =
     \<lparr>bal_total = [(''BTC'', Number 1), (''ETH'', Number 0)],
      bal_free = [''BTC'' \<mapsto> Number (1 / 2)],
      bal_used = [''BTC'' \<mapsto> Number (1 / 2)]\<rparr>"

text \<open>
  A configuration that supplies an initial capital, a fee and a threshold. The key paths
  are this file's choice: the code reads none for these values.
\<close>

definition example_config :: Config where
  "example_config =
     [''arbitrage.initial_capital'' \<mapsto> 5000,
      ''arbitrage.transaction_fee'' \<mapsto> 2 / 1000,
      ''arbitrage.threshold'' \<mapsto> 1 / 10]"

text \<open>
  The USDT price \<open>_calculate_total_value_usdt\<close> gives an upper-cased asset, read off
  its branches: 1 for USDT, the table's \<open>fdusd_usdt\<close> / \<open>usdc_usdt\<close> entry for FDUSD /
  USDC with 1 when the entry is absent, and 0 for every other asset.
\<close>

definition calculator_price :: "(string \<rightharpoonup> real) \<Rightarrow> string \<Rightarrow> real" where
  "calculator_price prices a =
     (if a = ''USDT'' then 1
      else if a = ''FDUSD'' then (case prices ''fdusd_usdt'' of Some p \<Rightarrow> p | None \<Rightarrow> 1)
      else if a = ''USDC'' then (case prices ''usdc_usdt'' of Some p \<Rightarrow> p | None \<Rightarrow> 1)
      else 0)"

text \<open>
  The USDT price the valuation of \<open>get_portfolio_value\<close> gives an upper-cased asset: 1
  for USDT, the market-derived table's entry for any other asset, 0 when it has none.
\<close>

definition adapter_price :: "(string \<rightharpoonup> real) \<Rightarrow> string \<Rightarrow> real" where
  "adapter_price market_prices a =
     (if a = ''USDT'' then 1
      else (case market_prices a of Some p \<Rightarrow> p | None \<Rightarrow> 0))"

text \<open>The balances with a positive total: both valuations skip the others.\<close>

definition held :: "Balance list \<Rightarrow> Balance list" where
  "held balances = filter (\<lambda>b. b_total b > 0) balances"

definition fdusd_balance :: Balance where
  "fdusd_balance =
     \<lparr>b_asset = ''FDUSD'', b_free = 100, b_locked = 0, b_total = 100, b_timestamp = t0\<rparr>"

definition fdusd_par_ticker :: MarketData where
  "fdusd_par_ticker =
     \<lparr>md_symbol = ''FDUSDUSDT'', md_price = 1, md_volume_24h = 0, md_change_24h = 0,
      md_change_24h_percent = 0, md_high_24h = 0, md_low_24h = 0, md_timestamp = t0\<rparr>"

text \<open>
  A response whose \<open>total\<close> entries are the sums of the \<open>free\<close> and \<open>used\<close> entries
  (an absent entry reads as 0.0).
\<close>

definition consistent :: "balance_data \<Rightarrow> bool" where
  "consistent bd =
     (\<forall>asset x f u. (asset, Number x) \<in> set (bal_total bd)
        \<and> get_or_zero (bal_free bd) asset = Number f
        \<and> get_or_zero (bal_used bd) asset = Number u \<longrightarrow> x = f + u)"

section \<open>Strings\<close>

lemma upper_USDT [simp]: "upper ''USDT'' = ''USDT''"
  by (simp add: upper_def upper_char_def)

lemma upper_BTC [simp]: "upper ''BTC'' = ''BTC''"
  by (simp add: upper_def upper_char_def)

lemma upper_FDUSD [simp]: "upper ''FDUSD'' = ''FDUSD''"
  by (simp add: upper_def upper_char_def)

lemma upper_BTCUSDT [simp]: "upper ''BTCUSDT'' = ''BTCUSDT''"
  by (simp add: upper_def upper_char_def)

section \<open>The collection round\<close>

lemma count_true_gather:
  "0 < count_true (gather_sub_collections ex) \<longleftrightarrow>
     collect_balance_data ex \<or> collect_market_data ex \<or> collect_trade_data ex
       \<or> collect_portfolio_data ex"
  by (auto simp: count_true_def gather_sub_collections_def)

lemma collect_exchange_data_iff:
  "collect_exchange_data ex \<longleftrightarrow> is_enabled ex \<and> 0 < count_true (gather_sub_collections ex)"
  by (auto simp: collect_exchange_data_def Let_def count_true_def gather_sub_collections_def)

lemma count_true_map_Returned:
  "count_true (map (\<lambda>ex. Returned (f ex)) exs) = length (filter f exs)"
  by (induction exs) (auto simp: count_true_def)

lemma length_filter_not:
  "length xs - length (filter f xs) = length (filter (\<lambda>x. \<not> f x) xs)"
  by (induction xs) (auto simp: Suc_diff_le)

lemma round_completed:
  "collections_completed (collect_data_round st exs) =
     collections_completed st + int (length (filter collect_exchange_data exs))"
  by (simp add: collect_data_round_def Let_def count_true_map_Returned)

lemma round_failed:
  "collections_failed (collect_data_round st exs) =
     collections_failed st + int (length (filter (\<lambda>ex. \<not> collect_exchange_data ex) exs))"
  by (simp add: collect_data_round_def Let_def count_true_map_Returned length_filter_not)


lemma valuation_Nil: "valuation [] market_data = \<lparr>pv_total_value_usdt = 0, pv_assets = Map.empty\<rparr>"
  by (simp add: valuation_def Let_def)


text \<open>
  Claim C10. A sub-collection returns \<open>True\<close> exactly when its adapter call returns
  without an exception and the data is non-empty (for the portfolio: a total above zero).
  So an exchange whose calls all return, with empty balances, market data and trades and a
  portfolio worth zero, is a failure of the round although no call failed.
\<close>

theorem sub_collection_success_needs_data:
  "(collect_balance_data ex \<longleftrightarrow> (\<exists>balances. balance_call ex = Inr balances \<and> balances \<noteq> []))
   \<and> (collect_market_data ex \<longleftrightarrow>
        (\<exists>market_data. market_call ex = Inr market_data \<and> market_data \<noteq> []))
   \<and> (collect_trade_data ex \<longleftrightarrow> (\<exists>trades. trade_call ex = Inr trades \<and> trades \<noteq> []))
   \<and> (collect_portfolio_data ex \<longleftrightarrow>
        (\<exists>pv. get_portfolio_value (pv_balance_call ex) (pv_market_call ex) = Inr pv
              \<and> pv_total_value_usdt pv > 0))
   \<and> (balance_call ex = Inr [] \<and> market_call ex = Inr [] \<and> trade_call ex = Inr []
        \<and> (\<exists>pv. get_portfolio_value (pv_balance_call ex) (pv_market_call ex) = Inr pv
              \<and> pv_total_value_usdt pv = 0)
       \<longrightarrow> \<not> collect_exchange_data ex
           \<and> collections_completed (collect_data_round st [ex]) = collections_completed st
           \<and> collections_failed (collect_data_round st [ex]) = collections_failed st + 1)"
proof -
  have b: "collect_balance_data ex \<longleftrightarrow> (\<exists>balances. balance_call ex = Inr balances \<and> balances \<noteq> [])"
    by (auto simp: collect_balance_data_def split: sum.splits)
  have m: "collect_market_data ex \<longleftrightarrow>
        (\<exists>market_data. market_call ex = Inr market_data \<and> market_data \<noteq> [])"
    by (auto simp: collect_market_data_def split: sum.splits)
  have t: "collect_trade_data ex \<longleftrightarrow> (\<exists>trades. trade_call ex = Inr trades \<and> trades \<noteq> [])"
    by (auto simp: collect_trade_data_def split: sum.splits)
  have p: "collect_portfolio_data ex \<longleftrightarrow>
        (\<exists>pv. get_portfolio_value (pv_balance_call ex) (pv_market_call ex) = Inr pv
              \<and> pv_total_value_usdt pv > 0)"
    by (auto simp: collect_portfolio_data_def split: sum.splits)
  have r: "\<not> collect_exchange_data ex
           \<and> collections_completed (collect_data_round st [ex]) = collections_completed st
           \<and> collections_failed (collect_data_round st [ex]) = collections_failed st + 1"
    if "balance_call ex = Inr []" "market_call ex = Inr []" "trade_call ex = Inr []"
       "\<exists>pv. get_portfolio_value (pv_balance_call ex) (pv_market_call ex) = Inr pv
              \<and> pv_total_value_usdt pv = 0"
  proof -
    from that b m t p have n: "\<not> collect_exchange_data ex"
      by (auto simp: collect_exchange_data_iff count_true_gather)
    then show ?thesis
      by (simp add: round_completed round_failed)
  qed
  from b m t p r show ?thesis by blast
qed

theorem sub_collection_success_needs_data_witness:
  "balance_call exchange_all_empty = Inr [] \<and> market_call exchange_all_empty = Inr []
   \<and> trade_call exchange_all_empty = Inr []
   \<and> (\<exists>pv. get_portfolio_value (pv_balance_call exchange_all_empty)
               (pv_market_call exchange_all_empty) = Inr pv
            \<and> pv_total_value_usdt pv = 0)
   \<and> is_enabled exchange_all_empty
   \<and> \<not> collect_exchange_data exchange_all_empty
   \<and> collections_failed (collect_data_round stats0 [exchange_all_empty]) = 1
   \<and> collect_balance_data exchange_balances_only"
  using sub_collection_success_needs_data [of exchange_all_empty stats0]
        sub_collection_success_needs_data [of exchange_balances_only stats0]
  by (simp add: exchange_all_empty_def exchange_balances_only_def stats0_def is_enabled_def
        get_portfolio_value_def valuation_Nil)

section \<open>The arbitrage calculator\<close>

















section \<open>The history queries\<close>

lemma midnight_fields [simp]:
  "hour (midnight t) = 0" "day (midnight t) = day t" "month (midnight t) = month t"
  "year (midnight t) = year t"
  by (simp_all add: midnight_def)

lemma recent_opportunities_returns_iff:
  "(\<exists>r. get_recent_opportunities now self hours = Inr r) \<longleftrightarrow> - 23 \<le> hours \<and> hours \<le> 0"
  by (auto simp: get_recent_opportunities_def Let_def replace_hour_def)

lemma recent_opportunities_positive_hours:
  "0 < hours \<Longrightarrow> get_recent_opportunities now self hours = Inl ValueError"
  by (simp add: get_recent_opportunities_def Let_def replace_hour_def)

lemma recent_pnl_days_reach_month_start:
  "day now \<le> days \<Longrightarrow> get_recent_pnl now self days = Inl ValueError"
  by (simp add: get_recent_pnl_def Let_def replace_day_def)

text \<open>
  Claim C4, at the failing inputs. \<open>get_recent_opportunities\<close> raises \<open>ValueError\<close>
  for every positive \<open>hours\<close>, at any time and on any history: with the default 24 and
  with 1. \<open>get_recent_pnl\<close> raises as soon as \<open>days\<close> reaches the day of the month:
  on the 3rd of November with the default 30 and with 3.
\<close>

theorem recent_queries_raise:
  "get_recent_opportunities now self 24 = Inl ValueError
   \<and> get_recent_opportunities now self 1 = Inl ValueError
   \<and> get_recent_pnl t0 self 30 = Inl ValueError
   \<and> get_recent_pnl t0 self 3 = Inl ValueError"
  by (simp add: recent_opportunities_positive_hours recent_pnl_days_reach_month_start t0_def)

section \<open>Performance statistics\<close>

lemma performance_stats_empty:
  "pnl_history self = [] \<Longrightarrow> get_performance_stats now self = Inr None"
  by (simp add: get_performance_stats_def)

lemma sharpe_of_Nil: "sharpe_of [] = 0"
  by (simp add: sharpe_of_def)

lemma drawdown_single:
  "max c v \<noteq> 0 \<Longrightarrow>
   drawdown_loop c 0 [pnl\<lparr>total_value_usdt := v\<rparr>] = Inr (max 0 ((max c v - v) / max c v * 100))"
  by (simp add: Let_def py_div_def)

text \<open>
  Claim C6, as amended. On an empty history the result is empty. On a history of one entry,
  with a non-zero larger of initial capital and entry total, the Sharpe ratio is 0 and the
  maximum drawdown is the percent decline of the entry from that larger value, clamped at
  0: it is 0 when the entry's total is at least the initial capital.
\<close>

theorem single_entry_stats:
  "(pnl_history self = [] \<longrightarrow> get_performance_stats now self = Inr None)
   \<and> (pnl_history self = [pnl]
        \<and> max (initial_capital self) (total_value_usdt pnl) \<noteq> 0 \<longrightarrow>
       (\<exists>st. get_performance_stats now self = Inr (Some st)
          \<and> sharpe_ratio st = 0
          \<and> max_drawdown_percent st =
               max 0 ((max (initial_capital self) (total_value_usdt pnl) - total_value_usdt pnl)
                        / max (initial_capital self) (total_value_usdt pnl) * 100)
          \<and> (initial_capital self \<le> total_value_usdt pnl \<longrightarrow> max_drawdown_percent st = 0)))"
proof -
  have e: "pnl_history self = [] \<longrightarrow> get_performance_stats now self = Inr None"
    by (simp add: performance_stats_empty)
  have s: "\<exists>st. get_performance_stats now self = Inr (Some st)
          \<and> sharpe_ratio st = 0
          \<and> max_drawdown_percent st =
               max 0 ((max (initial_capital self) (total_value_usdt pnl) - total_value_usdt pnl)
                        / max (initial_capital self) (total_value_usdt pnl) * 100)
          \<and> (initial_capital self \<le> total_value_usdt pnl \<longrightarrow> max_drawdown_percent st = 0)"
    if h: "pnl_history self = [pnl]"
      and m: "max (initial_capital self) (total_value_usdt pnl) \<noteq> 0"
  proof -
    have d: "drawdown_loop (initial_capital self) 0 [pnl] =
               Inr (max 0 ((max (initial_capital self) (total_value_usdt pnl)
                              - total_value_usdt pnl)
                             / max (initial_capital self) (total_value_usdt pnl) * 100))"
      using drawdown_single [OF m, of pnl] by simp
    have z: "initial_capital self \<le> total_value_usdt pnl \<Longrightarrow>
               max 0 ((max (initial_capital self) (total_value_usdt pnl)
                              - total_value_usdt pnl)
                             / max (initial_capital self) (total_value_usdt pnl) * 100) = 0"
      by (simp add: max_def)
    show ?thesis
      using z
      by (simp add: get_performance_stats_def h d Let_def sharpe_of_Nil
               del: drawdown_loop.simps)
  qed
  from e s show ?thesis by blast
qed

text \<open>
  Claim C6 as stated fails: with the initial capital of 10000 and a single entry worth
  9000 the maximum drawdown is 10, not 0.
\<close>

theorem single_entry_drawdown_counterexample:
  "map_sum id (map_option max_drawdown_percent)
     (get_performance_stats t0 (calculator_with_entry 9000)) = Inr (Some 10)"
  by (simp add: get_performance_stats_def calculator_with_entry_def pnl_entry_def
        orchestrator_calculator_def ArbitrageCalculator_init_def default_initial_capital_def
        Let_def py_div_def sharpe_of_Nil)

theorem single_entry_stats_witness:
  "pnl_history (calculator_with_entry 9000) = [pnl_entry t0 9000]
   \<and> max (initial_capital (calculator_with_entry 9000)) (total_value_usdt (pnl_entry t0 9000)) \<noteq> 0
   \<and> (\<exists>st. get_performance_stats t0 (calculator_with_entry 9000) = Inr (Some st)
         \<and> sharpe_ratio st = 0 \<and> max_drawdown_percent st = 10)
   \<and> pnl_history (calculator_with_entry 12000) = [pnl_entry t0 12000]
   \<and> initial_capital (calculator_with_entry 12000) \<le> total_value_usdt (pnl_entry t0 12000)
   \<and> (\<exists>st. get_performance_stats t0 (calculator_with_entry 12000) = Inr (Some st)
         \<and> sharpe_ratio st = 0 \<and> max_drawdown_percent st = 0)
   \<and> pnl_history orchestrator_calculator = []
   \<and> get_performance_stats t0 orchestrator_calculator = Inr None"
  using single_entry_stats [of "calculator_with_entry 9000" t0 "pnl_entry t0 9000"]
        single_entry_stats [of "calculator_with_entry 12000" t0 "pnl_entry t0 12000"]
        single_entry_stats [of orchestrator_calculator t0 "pnl_entry t0 0"]
  by (simp add: calculator_with_entry_def pnl_entry_def
        orchestrator_calculator_def ArbitrageCalculator_init_def default_initial_capital_def)

section \<open>Portfolio valuation against the calculator's valuation\<close>

lemma replace_BTCUSDT: "replace_with_empty ''USDT'' ''BTCUSDT'' = ''BTC''"
  by code_simp

lemma endswith_BTCUSDT: "endswith ''BTCUSDT'' ''USDT''"
  by (simp add: endswith_def)

lemma btc_ticker_fields: "md_symbol btc_ticker = ''BTCUSDT''" "md_price btc_ticker = 50000"
  by (simp_all add: btc_ticker_def)

lemma build_prices_btc: "build_prices Map.empty [btc_ticker] = [''BTC'' \<mapsto> 50000]"
  by (simp add: btc_ticker_fields Let_def endswith_BTCUSDT replace_BTCUSDT)

text \<open>
  Claim C5 as stated fails. One BTC with a \<open>BTCUSDT\<close> ticker at 50000 is worth 0 to
  \<open>_calculate_total_value_usdt\<close>, whatever price table it is given, and 50000 to the
  valuation of \<open>get_portfolio_value\<close>. 100 FDUSD with no price in either table are worth
  100 to the first and 0 to the second.
\<close>

theorem valuations_differ_counterexample:
  "calculate_total_value_usdt (balance_items [btc_balance]) (build_prices Map.empty [btc_ticker])
     = 0
   \<and> pv_total_value_usdt (valuation [btc_balance] [btc_ticker]) = 50000
   \<and> calculate_total_value_usdt (balance_items [fdusd_balance]) Map.empty = 100
   \<and> pv_total_value_usdt (valuation [fdusd_balance] []) = 0"
proof -
  have b: "calculate_total_value_usdt (balance_items [btc_balance])
             (build_prices Map.empty [btc_ticker]) = 0
           \<and> pv_total_value_usdt (valuation [btc_balance] [btc_ticker]) = 50000"
    by (simp add: build_prices_btc valuation_def Let_def calculate_total_value_usdt_def
          balance_items_def btc_balance_def del: build_prices.simps)
  have f: "calculate_total_value_usdt (balance_items [fdusd_balance]) Map.empty = 100
           \<and> pv_total_value_usdt (valuation [fdusd_balance] []) = 0"
    by (simp add: valuation_def Let_def calculate_total_value_usdt_def balance_items_def
          fdusd_balance_def)
  from b f show ?thesis by simp
qed

lemma total_value_loop_sum:
  "total_value_loop prices t (balance_items balances) =
     t + (\<Sum>b\<leftarrow>held balances. b_total b * calculator_price prices (upper (b_asset b)))"
  by (induction balances arbitrary: t)
     (auto simp: balance_items_def held_def calculator_price_def)

lemma value_balances_sum:
  "fst (value_balances market_prices (t, av) balances) =
     t + (\<Sum>b\<leftarrow>held balances. b_total b * adapter_price market_prices (upper (b_asset b)))"
  by (induction balances arbitrary: t av)
     (auto simp: held_def adapter_price_def Let_def split: option.splits)

lemma calculator_total_sum:
  "calculate_total_value_usdt (balance_items balances) prices =
     (\<Sum>b\<leftarrow>held balances. b_total b * calculator_price prices (upper (b_asset b)))"
  by (simp add: calculate_total_value_usdt_def total_value_loop_sum)

lemma valuation_total_sum:
  "pv_total_value_usdt (valuation balances market_data) =
     (\<Sum>b\<leftarrow>held balances.
        b_total b * adapter_price (build_prices Map.empty market_data) (upper (b_asset b)))"
proof -
  have "pv_total_value_usdt (valuation balances market_data)
          = fst (value_balances (build_prices Map.empty market_data) (0, Map.empty) balances)"
    by (simp add: valuation_def Let_def split: prod.splits)
  then show ?thesis
    by (simp add: value_balances_sum)
qed

text \<open>
  Claim C5, as amended. The total of \<open>_calculate_total_value_usdt\<close> is the sum, over the
  assets held with a positive amount, of the amount times 1 for USDT, times the supplied
  \<open>fdusd_usdt\<close> / \<open>usdc_usdt\<close> price (1 if absent) for FDUSD / USDC, and times 0 for
  every other asset. The total of \<open>get_portfolio_value\<close>'s valuation is the sum of the
  amount times 1 for USDT and times the market-derived price (0 if absent) for any other
  asset. The two totals are equal whenever the two prices are equal for every asset held.
\<close>

theorem valuations_agree_where_prices_agree:
  "calculate_total_value_usdt (balance_items balances) prices =
     (\<Sum>b\<leftarrow>held balances. b_total b * calculator_price prices (upper (b_asset b)))
   \<and> pv_total_value_usdt (valuation balances market_data) =
       (\<Sum>b\<leftarrow>held balances.
          b_total b * adapter_price (build_prices Map.empty market_data) (upper (b_asset b)))
   \<and> ((\<forall>b \<in> set (held balances).
          calculator_price prices (upper (b_asset b))
            = adapter_price (build_prices Map.empty market_data) (upper (b_asset b)))
        \<longrightarrow> calculate_total_value_usdt (balance_items balances) prices
              = pv_total_value_usdt (valuation balances market_data))"
proof -
  have e: "calculate_total_value_usdt (balance_items balances) prices
              = pv_total_value_usdt (valuation balances market_data)"
    if "\<forall>b \<in> set (held balances).
          calculator_price prices (upper (b_asset b))
            = adapter_price (build_prices Map.empty market_data) (upper (b_asset b))"
  proof -
    from that have "map (\<lambda>b. b_total b * calculator_price prices (upper (b_asset b)))
                      (held balances)
                  = map (\<lambda>b. b_total b
                            * adapter_price (build_prices Map.empty market_data)
                                (upper (b_asset b)))
                      (held balances)"
      by simp
    then show ?thesis
      by (simp only: calculator_total_sum valuation_total_sum)
  qed
  from calculator_total_sum [of balances prices] valuation_total_sum [of balances market_data] e
  show ?thesis by blast
qed

lemma build_prices_fdusd_par:
  "build_prices Map.empty [fdusd_par_ticker] = [''FDUSD'' \<mapsto> 1]"
proof -
  have u: "upper ''FDUSDUSDT'' = ''FDUSDUSDT''"
    by (simp add: upper_def upper_char_def)
  have e: "endswith ''FDUSDUSDT'' ''USDT''"
    by (simp add: endswith_def)
  have r: "replace_with_empty ''USDT'' ''FDUSDUSDT'' = ''FDUSD''"
    by code_simp
  show ?thesis
    by (simp add: fdusd_par_ticker_def Let_def u e r)
qed

theorem valuations_agree_where_prices_agree_witness:
  "calculator_price Map.empty (upper (b_asset usdt_balance))
     = adapter_price (build_prices Map.empty [fdusd_par_ticker]) (upper (b_asset usdt_balance))
   \<and> calculator_price Map.empty (upper (b_asset fdusd_balance))
     = adapter_price (build_prices Map.empty [fdusd_par_ticker]) (upper (b_asset fdusd_balance))
   \<and> calculator_price Map.empty (upper (b_asset btc_balance))
     = adapter_price (build_prices Map.empty [fdusd_par_ticker]) (upper (b_asset btc_balance))
   \<and> held [usdt_balance, fdusd_balance, btc_balance] = [usdt_balance, fdusd_balance, btc_balance]
   \<and> calculate_total_value_usdt (balance_items [usdt_balance, fdusd_balance, btc_balance])
        Map.empty = 150
   \<and> pv_total_value_usdt (valuation [usdt_balance, fdusd_balance, btc_balance]
        [fdusd_par_ticker]) = 150"
proof -
  have u: "calculator_price Map.empty (upper (b_asset usdt_balance))
     = adapter_price (build_prices Map.empty [fdusd_par_ticker]) (upper (b_asset usdt_balance))"
    by (simp add: calculator_price_def adapter_price_def usdt_balance_def)
  have f: "calculator_price Map.empty (upper (b_asset fdusd_balance))
     = adapter_price (build_prices Map.empty [fdusd_par_ticker]) (upper (b_asset fdusd_balance))"
    by (simp add: calculator_price_def adapter_price_def fdusd_balance_def
          build_prices_fdusd_par del: build_prices.simps)
  have b: "calculator_price Map.empty (upper (b_asset btc_balance))
     = adapter_price (build_prices Map.empty [fdusd_par_ticker]) (upper (b_asset btc_balance))"
    by (simp add: calculator_price_def adapter_price_def btc_balance_def
          build_prices_fdusd_par del: build_prices.simps)
  have h: "held [usdt_balance, fdusd_balance, btc_balance]
             = [usdt_balance, fdusd_balance, btc_balance]"
    by (simp add: held_def usdt_balance_def fdusd_balance_def btc_balance_def)
  have c: "calculate_total_value_usdt (balance_items [usdt_balance, fdusd_balance, btc_balance])
        Map.empty = 150"
    by (simp add: calculate_total_value_usdt_def balance_items_def usdt_balance_def
          fdusd_balance_def btc_balance_def)
  from valuations_agree_where_prices_agree
         [of "[usdt_balance, fdusd_balance, btc_balance]" Map.empty "[fdusd_par_ticker]"]
       u f b h c
  show ?thesis by simp
qed

section \<open>The Binance account balance\<close>

lemma balances_loop_entries:
  assumes "balances_loop current_time bd acc items = Inr out" and "b \<in> set out"
  shows "b \<in> set acc
         \<or> (b_total b > 0
            \<and> (b_asset b, Number (b_total b)) \<in> set items
            \<and> get_or_zero (bal_free bd) (b_asset b) = Number (b_free b)
            \<and> get_or_zero (bal_used bd) (b_asset b) = Number (b_locked b)
            \<and> b_timestamp b = current_time)"
  using assms
proof (induction items arbitrary: acc)
  case Nil
  then show ?case by simp
next
  case (Cons item rest)
  obtain asset data where item: "item = (asset, data)" by (cases item)
  show ?case
  proof (cases data)
    case PyNone
    with Cons item show ?thesis by auto
  next
    case (Number x)
    show ?thesis
    proof (cases "x > 0")
      case False
      with Cons item Number show ?thesis by auto
    next
      case True
      from Cons.prems(1) item Number True
      obtain free used where
        f: "get_or_zero (bal_free bd) asset = Number free" and
        u: "get_or_zero (bal_used bd) asset = Number used" and
        r: "balances_loop current_time bd
              (acc @ [\<lparr>b_asset = asset, b_free = free, b_locked = used,
                        b_total = x, b_timestamp = current_time\<rparr>]) rest = Inr out"
        by (auto simp: py_float_def split: py_value.splits sum.splits)
      from Cons.IH [OF r Cons.prems(2)] show ?thesis
        using item Number True f u by auto
    qed
  qed
qed

lemma get_account_balance_returns:
  "\<exists>balances. get_account_balance rate_limit now fetch = Inr balances"
  by (simp add: get_account_balance_def split: sum.splits)

lemma get_account_balance_entries:
  assumes "get_account_balance rate_limit now (Inr bd) = Inr balances" and "b \<in> set balances"
  shows "b_total b > 0
         \<and> (b_asset b, Number (b_total b)) \<in> set (bal_total bd)
         \<and> get_or_zero (bal_free bd) (b_asset b) = Number (b_free b)
         \<and> get_or_zero (bal_used bd) (b_asset b) = Number (b_locked b)"
proof -
  from assms have "balances_loop now bd [] (bal_total bd) = Inr balances"
    by (auto simp: get_account_balance_def split: sum.splits)
  from balances_loop_entries [OF this assms(2)] show ?thesis by simp
qed

lemma get_account_balance_failure:
  "get_account_balance rate_limit now (Inl e) = Inr []"
  by (simp add: get_account_balance_def split: sum.splits)

text \<open>
  Claim C7, as amended. Nothing is enforced when a \<open>Balance\<close> is built: in every balance
  \<open>get_account_balance\<close> returns, \<open>total\<close>, \<open>free\<close> and \<open>locked\<close> are the response's
  \<open>total\<close>, \<open>free\<close> and \<open>used\<close> entries of the asset, so \<open>total = free + locked\<close>
  holds when the response's entries satisfy it.
\<close>

theorem balance_total_copied_from_response:
  assumes "get_account_balance rate_limit now (Inr bd) = Inr balances" and "b \<in> set balances"
  shows "(b_asset b, Number (b_total b)) \<in> set (bal_total bd)
         \<and> get_or_zero (bal_free bd) (b_asset b) = Number (b_free b)
         \<and> get_or_zero (bal_used bd) (b_asset b) = Number (b_locked b)
         \<and> (consistent bd \<longrightarrow> b_total b = b_free b + b_locked b)"
proof -
  note e = get_account_balance_entries [OF assms]
  then have "consistent bd \<longrightarrow> b_total b = b_free b + b_locked b"
    unfolding consistent_def by blast
  with e show ?thesis by simp
qed

lemma consistent_response_result:
  "get_account_balance 100 t0 (Inr consistent_response) =
     Inr [\<lparr>b_asset = ''BTC'', b_free = 1 / 2, b_locked = 1 / 2, b_total = 1, b_timestamp = t0\<rparr>]"
  by (simp add: get_account_balance_def rate_limit_check_def consistent_response_def
        get_or_zero_def py_float_def)

text \<open>
  Claim C7 as stated fails: a response with total 1, free 0.5 and no used entry for BTC
  yields a \<open>Balance\<close> with total 1, free 0.5 and locked 0.
\<close>

theorem balance_total_not_enforced_counterexample:
  "get_account_balance 100 t0 (Inr inconsistent_response) =
     Inr [\<lparr>b_asset = ''BTC'', b_free = 1 / 2, b_locked = 0, b_total = 1, b_timestamp = t0\<rparr>]
   \<and> b_total \<lparr>b_asset = ''BTC'', b_free = 1 / 2, b_locked = 0, b_total = 1, b_timestamp = t0\<rparr>
       \<noteq> b_free \<lparr>b_asset = ''BTC'', b_free = 1 / 2, b_locked = 0, b_total = 1, b_timestamp = t0\<rparr>
         + b_locked \<lparr>b_asset = ''BTC'', b_free = 1 / 2, b_locked = 0, b_total = 1,
                     b_timestamp = t0\<rparr>"
  by (simp add: get_account_balance_def rate_limit_check_def inconsistent_response_def
        get_or_zero_def py_float_def)

lemma consistent_consistent_response: "consistent consistent_response"
  by (auto simp: consistent_def consistent_response_def get_or_zero_def)

theorem balance_total_copied_from_response_witness:
  "get_account_balance 100 t0 (Inr consistent_response) =
     Inr [\<lparr>b_asset = ''BTC'', b_free = 1 / 2, b_locked = 1 / 2, b_total = 1, b_timestamp = t0\<rparr>]
   \<and> \<lparr>b_asset = ''BTC'', b_free = 1 / 2, b_locked = 1 / 2, b_total = 1, b_timestamp = t0\<rparr>
        \<in> set [\<lparr>b_asset = ''BTC'', b_free = 1 / 2, b_locked = 1 / 2, b_total = 1,
                 b_timestamp = t0\<rparr>]
   \<and> consistent consistent_response
   \<and> (''BTC'', Number 1) \<in> set (bal_total consistent_response)
   \<and> (1::real) = 1 / 2 + 1 / 2"
proof -
  have m: "\<lparr>b_asset = ''BTC'', b_free = 1 / 2, b_locked = 1 / 2, b_total = 1, b_timestamp = t0\<rparr>
        \<in> set [\<lparr>b_asset = ''BTC'', b_free = 1 / 2, b_locked = 1 / 2, b_total = 1,
                 b_timestamp = t0\<rparr>]"
    by simp
  from balance_total_copied_from_response [OF consistent_response_result m]
       consistent_response_result m consistent_consistent_response
  show ?thesis by simp
qed

text \<open>
  Claim C8 as stated fails: when the client's call raises, for a transport or an
  authentication failure, \<open>get_account_balance\<close> returns the empty list, a normal return
  value.
\<close>

theorem failure_returns_empty_counterexample:
  "get_account_balance 100 t0 (Inl NetworkError) = Inr []
   \<and> get_account_balance 100 t0 (Inl AuthenticationError) = Inr []"
  by (simp add: get_account_balance_failure)

text \<open>
  Claim C8, as amended. \<open>get_account_balance\<close> always returns a list and never an error:
  the empty list when the client's call fails, and in every case only balances whose
  total is above zero.
\<close>

theorem account_balance_never_raises:
  "\<exists>balances. get_account_balance rate_limit now fetch = Inr balances
      \<and> (\<forall>b \<in> set balances. b_total b > 0)
      \<and> ((\<exists>e. fetch = Inl e) \<longrightarrow> balances = [])"
proof -
  obtain balances where r: "get_account_balance rate_limit now fetch = Inr balances"
    using get_account_balance_returns by blast
  have p: "\<forall>b \<in> set balances. b_total b > 0"
  proof (cases fetch)
    case (Inl e)
    with r show ?thesis by (simp add: get_account_balance_failure)
  next
    case (Inr bd)
    with r show ?thesis using get_account_balance_entries by blast
  qed
  have f: "(\<exists>e. fetch = Inl e) \<longrightarrow> balances = []"
    using r by (auto simp: get_account_balance_failure)
  from r p f show ?thesis by blast
qed

theorem account_balance_never_raises_witness:
  "(\<exists>e. (Inl NetworkError :: py_error + balance_data) = Inl e)
   \<and> get_account_balance 100 t0 (Inl NetworkError) = Inr []
   \<and> (\<exists>balances. get_account_balance 100 t0 (Inr consistent_response) = Inr balances
         \<and> balances \<noteq> [] \<and> (\<forall>b \<in> set balances. b_total b > 0))"
  using account_balance_never_raises [of 100 t0 "Inl NetworkError"]
        account_balance_never_raises [of 100 t0 "Inr consistent_response"]
  by (auto simp: consistent_response_result)

section \<open>Construction of the orchestrator\<close>

text \<open>
  Claim C9 as stated fails: a configuration that supplies an initial capital of 5000, a
  fee of 0.002 and a threshold of 0.1 leaves the orchestrator's calculator at 10000, 0.001
  and 0.05.
\<close>

theorem calculator_ignores_configuration_counterexample:
  "example_config ''arbitrage.initial_capital'' = Some 5000
   \<and> initial_capital (arbitrage_calculator (DataCollector_init example_config)) = 10000
   \<and> example_config ''arbitrage.transaction_fee'' = Some (2 / 1000)
   \<and> transaction_fee (arbitrage_calculator (DataCollector_init example_config)) = 1 / 1000
   \<and> example_config ''arbitrage.threshold'' = Some (1 / 10)
   \<and> min_profit_threshold (arbitrage_calculator (DataCollector_init example_config)) = 5 / 100"
  by (simp add: example_config_def DataCollector_init_def ArbitrageCalculator_init_def
        default_initial_capital_def)

text \<open>
  Claim C9, as amended. For every configuration the orchestrator's calculator has the
  initial capital 10000, the fee 0.001 and the threshold 0.05. The initial capital is a
  parameter of the calculator's constructor, which the orchestrator does not pass; the fee
  and the threshold are fixed in the constructor.
\<close>

theorem calculator_parameters_fixed:
  "arbitrage_calculator (DataCollector_init cfg) =
     \<lparr>initial_capital = 10000, transaction_fee = 1 / 1000, min_profit_threshold = 5 / 100,
      price_history = [], pnl_history = []\<rparr>
   \<and> initial_capital (ArbitrageCalculator_init capital) = capital
   \<and> transaction_fee (ArbitrageCalculator_init capital) = 1 / 1000
   \<and> min_profit_threshold (ArbitrageCalculator_init capital) = 5 / 100"
  by (simp add: DataCollector_init_def ArbitrageCalculator_init_def default_initial_capital_def)

end
